theory Spec2Isabelle
  imports Complex_Main
begin

section \<open>Data model\<close>

text \<open>
  The strategy runner of \<^verbatim>\<open>src/main.py\<close> (class \<^verbatim>\<open>IBKRConnector\<close>).
  Python floats are read as real numbers: every property below is about which arithmetic
  expression the code evaluates, not about rounding. Python's unbounded \<^verbatim>\<open>int\<close> is \<open>int\<close>.
\<close>

datatype error = TypeError | IndexError | ZeroDivisionError | ValueError | UnboundLocalError

text \<open>A raw price bar (\<^verbatim>\<open>BarData\<close>); only the four price fields are read by the code.\<close>

record bar =
  bar_open :: real
  bar_high :: real
  bar_low :: real
  bar_close :: real

text \<open>
  The data frame built by \<^verbatim>\<open>compute_heikin_ashi\<close>: the columns
  \<^verbatim>\<open>'open'\<close>, \<^verbatim>\<open>'high'\<close>, \<^verbatim>\<open>'low'\<close>, \<^verbatim>\<open>'close'\<close>, named after the series
  they are built from.
\<close>

record ha_df =
  ha_open :: "real list"
  ha_high :: "real list"
  ha_low :: "real list"
  ha_close :: "real list"

section \<open>Heikin-Ashi transformer\<close>

text \<open>
  One iteration of the loop \<^verbatim>\<open>for i in range(1, len(df))\<close>. All four series have the
  length of \<^verbatim>\<open>df\<close> and \<open>1 \<le> i < len(df)\<close>, so every \<^verbatim>\<open>iloc\<close> is in range.
  The high and the low read \<^verbatim>\<open>ha_open.iloc[i]\<close> after it has been written.
\<close>

definition ha_step :: "bar list \<Rightarrow> nat \<Rightarrow> ha_df \<Rightarrow> ha_df" where
  "ha_step bars i df =
     (let open' = (ha_open df)[i := (ha_open df ! (i - 1) + ha_close df ! (i - 1)) / 2];
          high' = (ha_high df)[i := max (bar_high (bars ! i)) (max (open' ! i) (ha_close df ! i))];
          low' = (ha_low df)[i := min (bar_low (bars ! i)) (min (open' ! i) (ha_close df ! i))]
      in df\<lparr>ha_open := open', ha_high := high', ha_low := low'\<rparr>)"

text \<open>\<^verbatim>\<open>(df['open'] + df['high'] + df['low'] + df['close']) / 4\<close>, element by element.\<close>

definition avg_ohlc :: "bar list \<Rightarrow> real list" where
  "avg_ohlc bars = map (\<lambda>b. (bar_open b + bar_high b + bar_low b + bar_close b) / 4) bars"

text \<open>The state before the loop: the three copies of \<^verbatim>\<open>ha_close\<close>.\<close>

definition ha_init :: "bar list \<Rightarrow> ha_df" where
  "ha_init bars =
     \<lparr>ha_open = avg_ohlc bars, ha_high = avg_ohlc bars, ha_low = avg_ohlc bars,
      ha_close = avg_ohlc bars\<rparr>"

text \<open>The loop run for the indices \<open>1 \<le> i < n\<close>.\<close>

definition ha_loop :: "bar list \<Rightarrow> nat \<Rightarrow> ha_df" where
  "ha_loop bars n = fold (ha_step bars) [1..<n] (ha_init bars)"

text \<open>
  \<^verbatim>\<open>util.df\<close> returns \<^verbatim>\<open>None\<close> for an empty bar list, and subscripting \<^verbatim>\<open>None\<close>
  raises \<^verbatim>\<open>TypeError\<close>.
\<close>

definition compute_heikin_ashi :: "bar list \<Rightarrow> error + ha_df" where
  "compute_heikin_ashi bars =
     (if bars = [] then Inl TypeError else Inr (ha_loop bars (length bars)))"

section \<open>EMA smoother\<close>

text \<open>One iteration of \<^verbatim>\<open>for i in range(1, len(prices))\<close>.\<close>

definition ema_step :: "real list \<Rightarrow> real \<Rightarrow> nat \<Rightarrow> real list \<Rightarrow> real list" where
  "ema_step prices alpha i ema = ema[i := prices ! i * alpha + ema ! (i - 1) * (1 - alpha)]"

definition ema_loop :: "real list \<Rightarrow> real \<Rightarrow> nat \<Rightarrow> real list" where
  "ema_loop prices alpha n = fold (ema_step prices alpha) [1..<n] prices"

text \<open>
  \<^verbatim>\<open>alpha = 2 / (period + 1)\<close> is evaluated first and divides by zero when
  \<open>period = -1\<close>; \<^verbatim>\<open>prices.iloc[0]\<close> is out of bounds on an empty series. The
  assignment \<^verbatim>\<open>ema.iloc[0] = prices.iloc[0]\<close> writes the value the copy already holds.
  There is no other check of \<open>period\<close>.
\<close>

definition compute_ema :: "real list \<Rightarrow> int \<Rightarrow> error + real list" where
  "compute_ema prices period =
     (if period + 1 = 0 then Inl ZeroDivisionError
      else (let alpha = 2 / real_of_int (period + 1) in
        (case prices of
           [] \<Rightarrow> Inl IndexError
         | p0 # _ \<Rightarrow> Inr (ema_loop prices alpha (length prices)))))"

section \<open>Broker objects and strategy state\<close>

text \<open>
  An order as the code builds it: \<^verbatim>\<open>MarketOrder(action, qty)\<close>,
  \<^verbatim>\<open>StopOrder(action, qty, stopPrice)\<close> and
  \<^verbatim>\<open>Order(orderType='TRAIL', auxPrice=..., trailStopPrice=...)\<close>.
\<close>

datatype order_kind = MarketOrder | StopOrder real | TrailOrder real real

text \<open>
  \<open>ocaGroup\<close> is \<open>None\<close> where the code passes \<^verbatim>\<open>self.oca_group\<close> while it is
  still \<^verbatim>\<open>None\<close>; an order built without the keyword has the library default \<^verbatim>\<open>''\<close>.
  A new order has \<open>orderId = 0\<close> until the client numbers it on placement.
\<close>

record order =
  action :: string
  totalQuantity :: real
  kind :: order_kind
  orderRef :: string
  ocaGroup :: "string option"
  outsideRth :: bool
  orderId :: int

record trade =
  trade_symbol :: string
  trade_order :: order
  avgFillPrice :: real

text \<open>
  One execution of an order (\<^verbatim>\<open>fill.execution\<close>): its price and the quantity executed
  (\<^verbatim>\<open>shares\<close>). The handler of the fill event reads the price only.
\<close>

record fill =
  fill_price :: real
  fill_shares :: real

record position =
  pos_symbol :: string
  pos_position :: real

text \<open>
  One line of the account summary. \<open>av_value\<close> is what \<^verbatim>\<open>float(summary.value)\<close>
  returns, \<open>None\<close> where it raises \<^verbatim>\<open>ValueError\<close>.
\<close>

record account_value =
  tag :: string
  currency :: string
  av_value :: "real option"

text \<open>
  What the code reads from \<^verbatim>\<open>self.ib\<close>, and the orders it has handed to
  \<^verbatim>\<open>placeOrder\<close>, oldest first. Every \<^verbatim>\<open>placeOrder\<close> of the code is for
  \<^verbatim>\<open>self.s1_contract\<close>. The answers of the broker are one snapshot for the length of a call.
\<close>

record broker =
  positions :: "position list"
  openTrades :: "trade list"
  trades :: "trade list"
  accountSummary :: "account_value list"
  placed :: "order list"

text \<open>The keys of the configuration section the modelled code reads, already converted.\<close>

record config =
  cfg_ema_period :: int
  cfg_vix_ema_period :: int
  cfg_condition :: "string option"
  cfg_size :: int
  cfg_fixed_stoploss :: real
  cfg_trailing_stoploss :: real
  cfg_trailing_stoploss_trigger :: real

text \<open>
  A row of the stored indicator frame, the Heikin-Ashi columns and the \<^verbatim>\<open>'ema'\<close>
  column: a data frame holds one value of every column at each index.
\<close>

record ha_row =
  row_open :: real
  row_high :: real
  row_low :: real
  row_close :: real
  row_ema :: real

record connector =
  config :: config
  ib :: broker
  s1_symbol :: string
  s1_bars :: "bar list option"
  s1_ha_bars :: "ha_row list option"
  s2_bars :: "bar list option"
  s2_ha_bars :: "ha_row list option"
  oca_group :: "string option"
  entry_price :: "real option"
  upper_pnl :: real
  lower_pnl :: real

datatype task = Execute | ManagePositions

section \<open>Indicator store\<close>

text \<open>
  \<^verbatim>\<open>ha_df['ema'] = series\<close>. The series is always computed from a column of the same
  bars, so it has one value for every row.
\<close>

definition with_ema :: "ha_df \<Rightarrow> real list \<Rightarrow> ha_row list" where
  "with_ema df e =
     map (\<lambda>(op, hi, lo, cl, em).
            \<lparr>row_open = op, row_high = hi, row_low = lo, row_close = cl, row_ema = em\<rparr>)
         (zip (ha_open df) (zip (ha_high df) (zip (ha_low df) (zip (ha_close df) e))))"

text \<open>
  The handler of an S1 bar update. The EMA is computed over \<^verbatim>\<open>df['close']\<close> with
  \<^verbatim>\<open>df = util.df(bars)\<close>: the close column of the raw bars. The result also lists the
  tasks the handler creates.
\<close>

definition on_s1_bar_update :: "connector \<Rightarrow> bar list \<Rightarrow> bool \<Rightarrow> error + connector \<times> task list" where
  "on_s1_bar_update c bars hasNewBar =
     (case compute_heikin_ashi bars of
        Inl e \<Rightarrow> Inl e
      | Inr ha \<Rightarrow>
          (case compute_ema (map bar_close bars) (cfg_ema_period (config c)) of
             Inl e \<Rightarrow> Inl e
           | Inr e \<Rightarrow>
               Inr (c\<lparr>s1_bars := Some bars, s1_ha_bars := Some (with_ema ha e)\<rparr>,
                    (if hasNewBar then [Execute] else []) @ [ManagePositions])))"

text \<open>The handler of an S2 bar update: the EMA is over the Heikin-Ashi close column.\<close>

definition on_s2_bar_update :: "connector \<Rightarrow> bar list \<Rightarrow> bool \<Rightarrow> error + connector" where
  "on_s2_bar_update c bars hasNewBar =
     (case compute_heikin_ashi bars of
        Inl e \<Rightarrow> Inl e
      | Inr ha \<Rightarrow>
          (case compute_ema (ha_close ha) (cfg_vix_ema_period (config c)) of
             Inl e \<Rightarrow> Inl e
           | Inr e \<Rightarrow> Inr (c\<lparr>s2_bars := Some bars, s2_ha_bars := Some (with_ema ha e)\<rparr>)))"

text \<open>
  The part of \<^verbatim>\<open>start\<close> that fills the S1 indicators from the historical bars the
  broker returned, before the handlers are registered: the EMA is over
  \<^verbatim>\<open>self.s1_ha_bars['close']\<close>.
\<close>

definition start_s1 :: "connector \<Rightarrow> bar list \<Rightarrow> error + connector" where
  "start_s1 c bars =
     (case compute_heikin_ashi bars of
        Inl e \<Rightarrow> Inl e
      | Inr ha \<Rightarrow>
          (case compute_ema (ha_close ha) (cfg_ema_period (config c)) of
             Inl e \<Rightarrow> Inl e
           | Inr e \<Rightarrow> Inr (c\<lparr>s1_bars := Some bars, s1_ha_bars := Some (with_ema ha e)\<rparr>)))"

section \<open>Position and risk manager\<close>

text \<open>\<^verbatim>\<open>self.ib.placeOrder(self.s1_contract, order)\<close>.\<close>

definition placeOrder :: "connector \<Rightarrow> order \<Rightarrow> connector" where
  "placeOrder c ord = c\<lparr>ib := (ib c)\<lparr>placed := placed (ib c) @ [ord]\<rparr>\<rparr>"

text \<open>Python's \<^verbatim>\<open>str\<close> of an integer, as the f-string of the OCA group formats it.\<close>

definition digit_char :: "nat \<Rightarrow> char" where
  "digit_char d = char_of (48 + d)"

fun str_nat :: "nat \<Rightarrow> string" where
  "str_nat n = (if n < 10 then [digit_char n] else str_nat (n div 10) @ [digit_char (n mod 10)])"

definition str_int :: "int \<Rightarrow> string" where
  "str_int i = (if i < 0 then CHR ''-'' # str_nat (nat (- i)) else str_nat (nat i))"

text \<open>
  The handler of \<^verbatim>\<open>execDetailsEvent\<close>. With an action other than \<^verbatim>\<open>'BUY'\<close> and
  \<^verbatim>\<open>'SELL'\<close> no branch binds \<^verbatim>\<open>stop_order\<close> and the next statement raises
  \<^verbatim>\<open>UnboundLocalError\<close>.
\<close>

definition on_order_filled :: "connector \<Rightarrow> trade \<Rightarrow> fill \<Rightarrow> error + connector" where
  "on_order_filled c tr fl =
     (if orderRef (trade_order tr) = ''entry'' then
        (let filled_price = fill_price fl;
             c1 = c\<lparr>entry_price := Some filled_price\<rparr>;
             stop_loss_distance = cfg_fixed_stoploss (config c) * 0.25;
             c2 = c1\<lparr>oca_group := Some (''oca_'' @ str_int (orderId (trade_order tr)))\<rparr>
         in if action (trade_order tr) = ''BUY'' then
              Inr (placeOrder c2
                \<lparr>action = ''SELL'', totalQuantity = totalQuantity (trade_order tr),
                 kind = StopOrder (filled_price - stop_loss_distance),
                 orderRef = ''fixed_stop_loss'', ocaGroup = oca_group c2,
                 outsideRth = True, orderId = 0\<rparr>)
            else if action (trade_order tr) = ''SELL'' then
              Inr (placeOrder c2
                \<lparr>action = ''BUY'', totalQuantity = totalQuantity (trade_order tr),
                 kind = StopOrder (filled_price + stop_loss_distance),
                 orderRef = ''fixed_stop_loss'', ocaGroup = oca_group c2,
                 outsideRth = True, orderId = 0\<rparr>)
            else Inl UnboundLocalError)
      else Inr c)"

definition has_open_position :: "connector \<Rightarrow> bool" where
  "has_open_position c = list_ex (\<lambda>p. pos_symbol p = s1_symbol c) (positions (ib c))"

definition has_pending_trailing_stop_order :: "connector \<Rightarrow> bool" where
  "has_pending_trailing_stop_order c =
     list_ex (\<lambda>t. orderRef (trade_order t) = ''trailing_stop_loss'') (openTrades (ib c))"

text \<open>The loop of \<^verbatim>\<open>get_daily_pnl\<close> over the account summary: the first match returns.\<close>

fun realized_pnl :: "account_value list \<Rightarrow> error + real" where
  "realized_pnl [] = Inr 0"
| "realized_pnl (summary # rest) =
     (if tag summary = ''RealizedPnL'' \<and> currency summary = ''USD'' then
        (case av_value summary of None \<Rightarrow> Inl ValueError | Some v \<Rightarrow> Inr v)
      else realized_pnl rest)"

definition get_daily_pnl :: "connector \<Rightarrow> error + real" where
  "get_daily_pnl c = realized_pnl (accountSummary (ib c))"

definition is_pnl_within_limits :: "connector \<Rightarrow> error + bool" where
  "is_pnl_within_limits c =
     (case get_daily_pnl c of
        Inl e \<Rightarrow> Inl e
      | Inr daily_pnl \<Rightarrow> Inr (lower_pnl c \<le> daily_pnl \<and> daily_pnl \<le> upper_pnl c))"

text \<open>\<^verbatim>\<open>MarketOrder(action, int(self.config['size']), orderRef="entry")\<close>, outside RTH.\<close>

definition entry_order :: "connector \<Rightarrow> string \<Rightarrow> order" where
  "entry_order c act =
     \<lparr>action = act, totalQuantity = real_of_int (cfg_size (config c)), kind = MarketOrder,
      orderRef = ''entry'', ocaGroup = Some [], outsideRth = True, orderId = 0\<rparr>"

text \<open>
  Under the guard \<^verbatim>\<open>len(self.s1_ha_bars) > 1\<close> the position \<^verbatim>\<open>iloc[-2]\<close> is
  \<open>length - 2\<close>, of the row and of the \<^verbatim>\<open>'ema'\<close> column alike.
\<close>

definition condition1_entry :: "connector \<Rightarrow> connector" where
  "condition1_entry c =
     (case s1_ha_bars c of
        None \<Rightarrow> c
      | Some df \<Rightarrow>
          if length df > 1 then
            (let second_last_bar = df ! (length df - 2);
                 second_last_ema = map row_ema df ! (length df - 2)
             in if row_close second_last_bar > second_last_ema then
                  placeOrder c (entry_order c ''BUY'')
                else if row_close second_last_bar < second_last_ema then
                  placeOrder c (entry_order c ''SELL'')
                else c)
          else c)"

definition condition2_entry :: "connector \<Rightarrow> connector" where
  "condition2_entry c =
     (case (s1_ha_bars c, s2_ha_bars c) of
        (Some df1, Some df2) \<Rightarrow>
          if length df1 > 1 \<and> length df2 > 0 then
            (let second_last_bar_s1 = df1 ! (length df1 - 2);
                 last_bar_s2 = df2 ! (length df2 - 1);
                 second_last_ema_s1 = map row_ema df1 ! (length df1 - 2);
                 last_ema_s2 = map row_ema df2 ! (length df2 - 1)
             in if row_close second_last_bar_s1 > row_open second_last_bar_s1
                   \<and> row_close second_last_bar_s1 > second_last_ema_s1
                   \<and> row_close last_bar_s2 < last_ema_s2 then
                  placeOrder c (entry_order c ''BUY'')
                else if row_close second_last_bar_s1 < row_open second_last_bar_s1
                   \<and> row_close second_last_bar_s1 < second_last_ema_s1
                   \<and> row_close last_bar_s2 > last_ema_s2 then
                  placeOrder c (entry_order c ''SELL'')
                else c)
          else c
      | _ \<Rightarrow> c)"

text \<open>
  Entry evaluation. The only failure is the \<^verbatim>\<open>ValueError\<close> of the PnL query, raised
  before any order is placed.
\<close>

definition entry :: "connector \<Rightarrow> error + connector" where
  "entry c =
     (if has_open_position c \<or> has_pending_trailing_stop_order c then Inr c
      else
        (case is_pnl_within_limits c of
           Inl e \<Rightarrow> Inl e
         | Inr in_limits \<Rightarrow>
             if \<not> in_limits then Inr c
             else if cfg_condition (config c) = Some ''1'' then Inr (condition1_entry c)
             else if cfg_condition (config c) = Some ''2'' then Inr (condition2_entry c)
             else Inr c))"

definition get_position_size :: "connector \<Rightarrow> real" where
  "get_position_size c =
     (case find (\<lambda>p. pos_symbol p = s1_symbol c) (positions (ib c)) of
        None \<Rightarrow> 0
      | Some p \<Rightarrow> pos_position p)"

text \<open>
  The block \<^verbatim>\<open>if self.entry_price is None\<close> of \<^verbatim>\<open>manage_positions\<close>: the state with a
  known entry price and that price, or \<open>None\<close> where the code returns.
\<close>

definition recover_entry_price :: "connector \<Rightarrow> (connector \<times> real) option" where
  "recover_entry_price c =
     (case entry_price c of
        Some p \<Rightarrow> Some (c, p)
      | None \<Rightarrow>
          if trades (ib c) \<noteq> [] then
            (let last_trade = last (trades (ib c))
             in if trade_symbol last_trade = s1_symbol c
                then Some (c\<lparr>entry_price := Some (avgFillPrice last_trade)\<rparr>,
                           avgFillPrice last_trade)
                else None)
          else None)"

text \<open>
  Trailing-stop management. Nothing inside the \<^verbatim>\<open>try\<close> block raises on real numbers,
  so the \<^verbatim>\<open>except\<close> branch has no counterpart.
\<close>

definition manage_positions :: "connector \<Rightarrow> connector" where
  "manage_positions c =
     (let position_size = get_position_size c
      in if position_size \<noteq> 0 \<and> \<not> has_pending_trailing_stop_order c then
           (case s1_bars c of
              None \<Rightarrow> c
            | Some bars \<Rightarrow>
                if bars = [] then c
                else
                  (let last_bar = last bars
                   in case recover_entry_price c of
                        None \<Rightarrow> c
                      | Some (c1, price) \<Rightarrow>
                          (let trailing_stop_loss_distance =
                                 cfg_trailing_stoploss (config c1) * 0.25;
                               trailing_stop_loss_trigger_distance =
                                 cfg_trailing_stoploss_trigger (config c1) * 0.25
                           in if position_size > 0 then
                                (if bar_high last_bar - price
                                      \<ge> trailing_stop_loss_trigger_distance then
                                   placeOrder c1
                                     \<lparr>action = ''SELL'', totalQuantity = position_size,
                                      kind = TrailOrder trailing_stop_loss_distance
                                        (bar_close last_bar - trailing_stop_loss_distance),
                                      orderRef = ''trailing_stop_loss'',
                                      ocaGroup = oca_group c1, outsideRth = True, orderId = 0\<rparr>
                                 else c1)
                              else if position_size < 0 then
                                (if price - bar_low last_bar
                                      \<ge> trailing_stop_loss_trigger_distance then
                                   placeOrder c1
                                     \<lparr>action = ''BUY'', totalQuantity = \<bar>position_size\<bar>,
                                      kind = TrailOrder trailing_stop_loss_distance
                                        (bar_close last_bar + trailing_stop_loss_distance),
                                      orderRef = ''trailing_stop_loss'',
                                      ocaGroup = oca_group c1, outsideRth = True, orderId = 0\<rparr>
                                 else c1)
                              else c1)))
         else c)"

section \<open>Example states\<close>

text \<open>Concrete inputs at which the theorems below are evaluated.\<close>

definition example_config :: config where
  "example_config =
     \<lparr>cfg_ema_period = 3, cfg_vix_ema_period = 3, cfg_condition = Some ''1'', cfg_size = 2,
      cfg_fixed_stoploss = 40, cfg_trailing_stoploss = 20, cfg_trailing_stoploss_trigger = 40\<rparr>"

text \<open>Two indicator rows; the second-to-last has the given Heikin-Ashi close and EMA.\<close>

definition example_frame :: "real \<Rightarrow> real \<Rightarrow> ha_row list" where
  "example_frame cl em =
     [\<lparr>row_open = 100, row_high = 110, row_low = 90, row_close = cl, row_ema = em\<rparr>,
      \<lparr>row_open = 100, row_high = 101, row_low = 99, row_close = 100, row_ema = 100\<rparr>]"

text \<open>
  A flat account (no position, no open order) with the given account summary and S1
  indicator frame, and the PnL bounds \<open>[-100, 100]\<close>.
\<close>

definition flat_connector :: "account_value list \<Rightarrow> ha_row list option \<Rightarrow> connector" where
  "flat_connector summary df =
     \<lparr>config = example_config,
      ib = \<lparr>positions = [], openTrades = [], trades = [], accountSummary = summary,
            placed = []\<rparr>,
      s1_symbol = ''MNQ'', s1_bars = None, s1_ha_bars = df, s2_bars = None,
      s2_ha_bars = None, oca_group = None, entry_price = None,
      upper_pnl = 100, lower_pnl = - 100\<rparr>"

definition pnl_summary :: "real \<Rightarrow> account_value list" where
  "pnl_summary pnl =
     [\<lparr>tag = ''NetLiquidation'', currency = ''USD'', av_value = Some 50000\<rparr>,
      \<lparr>tag = ''RealizedPnL'', currency = ''USD'', av_value = Some pnl\<rparr>]"

text \<open>A summary with no line of tag \<^verbatim>\<open>RealizedPnL\<close> in \<^verbatim>\<open>USD\<close>.\<close>

definition summary_without_pnl :: "account_value list" where
  "summary_without_pnl =
     [\<lparr>tag = ''NetLiquidation'', currency = ''USD'', av_value = Some 50000\<rparr>,
      \<lparr>tag = ''RealizedPnL'', currency = ''EUR'', av_value = Some (- 500)\<rparr>]"

text \<open>An entry order of 2 contracts, numbered 17 by the client, and its trade.\<close>

definition example_entry_trade :: "string \<Rightarrow> trade" where
  "example_entry_trade act =
     \<lparr>trade_symbol = ''MNQ'',
      trade_order = \<lparr>action = act, totalQuantity = 2, kind = MarketOrder, orderRef = ''entry'',
                     ocaGroup = Some [], outsideRth = True, orderId = 17\<rparr>,
      avgFillPrice = 15000\<rparr>"

text \<open>
  The state after a first execution at 15000 of the BUY entry order 17: the entry price,
  the OCA group of the order and its stop order are in place.
\<close>

definition after_first_fill :: connector where
  "after_first_fill =
     \<lparr>config = example_config,
      ib = \<lparr>positions = [], openTrades = [], trades = [], accountSummary = [],
            placed =
              [\<lparr>action = ''SELL'', totalQuantity = 2, kind = StopOrder 14990,
                orderRef = ''fixed_stop_loss'', ocaGroup = Some ''oca_17'',
                outsideRth = True, orderId = 0\<rparr>]\<rparr>,
      s1_symbol = ''MNQ'', s1_bars = None, s1_ha_bars = None, s2_bars = None,
      s2_ha_bars = None, oca_group = Some ''oca_17'', entry_price = Some 15000,
      upper_pnl = 100, lower_pnl = - 100\<rparr>"

text \<open>
  A long position of 2 contracts entered at 15000, the last bar's high 15020 beyond the
  trigger distance of \<open>40 * 0.25 = 10\<close>, with the given open trades.
\<close>

definition long_connector :: "trade list \<Rightarrow> connector" where
  "long_connector open_trades =
     \<lparr>config = example_config,
      ib = \<lparr>positions = [\<lparr>pos_symbol = ''MNQ'', pos_position = 2\<rparr>],
            openTrades = open_trades, trades = [], accountSummary = [], placed = []\<rparr>,
      s1_symbol = ''MNQ'',
      s1_bars = Some [\<lparr>bar_open = 15000, bar_high = 15020, bar_low = 14995, bar_close = 15010\<rparr>],
      s1_ha_bars = None, s2_bars = None, s2_ha_bars = None,
      oca_group = Some ''oca_17'', entry_price = Some 15000,
      upper_pnl = 100, lower_pnl = - 100\<rparr>"

definition pending_trailing_trade :: trade where
  "pending_trailing_trade =
     \<lparr>trade_symbol = ''MNQ'',
      trade_order = \<lparr>action = ''SELL'', totalQuantity = 2, kind = TrailOrder 5 15000,
                     orderRef = ''trailing_stop_loss'', ocaGroup = Some ''oca_17'',
                     outsideRth = True, orderId = 19\<rparr>,
      avgFillPrice = 0\<rparr>"

text \<open>Two raw bars whose close prices differ from their Heikin-Ashi close prices.\<close>

definition example_bars :: "bar list" where
  "example_bars =
     [\<lparr>bar_open = 1, bar_high = 4, bar_low = 1, bar_close = 2\<rparr>,
      \<lparr>bar_open = 2, bar_high = 5, bar_low = 1, bar_close = 4\<rparr>]"

section \<open>Properties of the EMA loop\<close>

lemma ema_loop_start: "ema_loop prices a (Suc 0) = prices"
  by (simp add: ema_loop_def)

lemma ema_loop_Suc:
  "1 \<le> n \<Longrightarrow> ema_loop prices a (Suc n) = ema_step prices a n (ema_loop prices a n)"
  by (simp add: ema_loop_def upt_Suc_append)

lemma length_ema_step: "length (ema_step prices a i ema) = length ema"
  by (simp add: ema_step_def)

lemma length_ema_loop: "length (ema_loop prices a n) = length prices"
proof (induction n)
  case 0
  show ?case by (simp add: ema_loop_def)
next
  case (Suc n)
  show ?case
  proof (cases "n = 0")
    case True
    then show ?thesis by (simp add: ema_loop_start)
  next
    case False
    then show ?thesis using Suc by (simp add: ema_loop_Suc length_ema_step)
  qed
qed

lemma ema_loop_inv:
  "n < length prices \<Longrightarrow>
     ema_loop prices a (Suc n) ! 0 = prices ! 0 \<and>
     (\<forall>i. 1 \<le> i \<and> i \<le> n \<longrightarrow>
        ema_loop prices a (Suc n) ! i =
          prices ! i * a + ema_loop prices a (Suc n) ! (i - 1) * (1 - a))"
proof (induction n)
  case 0
  show ?case by (simp add: ema_loop_start)
next
  case (Suc n)
  let ?e = "ema_loop prices a (Suc n)"
  have step: "ema_loop prices a (Suc (Suc n)) =
      ?e[Suc n := prices ! Suc n * a + ?e ! n * (1 - a)]"
    by (simp add: ema_loop_Suc ema_step_def)
  have len: "Suc n < length ?e"
    using Suc.prems by (simp add: length_ema_loop)
  have ih: "?e ! 0 = prices ! 0"
    "\<And>i. 1 \<le> i \<Longrightarrow> i \<le> n \<Longrightarrow> ?e ! i = prices ! i * a + ?e ! (i - 1) * (1 - a)"
    using Suc by simp_all
  show ?case
  proof (intro conjI allI impI)
    show "ema_loop prices a (Suc (Suc n)) ! 0 = prices ! 0"
      by (simp add: step ih(1))
  next
    fix i assume i: "1 \<le> i \<and> i \<le> Suc n"
    show "ema_loop prices a (Suc (Suc n)) ! i =
        prices ! i * a + ema_loop prices a (Suc (Suc n)) ! (i - 1) * (1 - a)"
    proof (cases "i = Suc n")
      case True
      then show ?thesis using len by (simp add: step)
    next
      case False
      with i have "i \<le> n" "Suc n \<noteq> i - 1" "Suc n \<noteq> i" by arith+
      then show ?thesis using i ih(2)[of i] by (simp add: step)
    qed
  qed
qed

section \<open>Properties of the Heikin-Ashi loop\<close>

lemma ha_loop_start: "ha_loop bars (Suc 0) = ha_init bars"
  by (simp add: ha_loop_def)

lemma ha_loop_Suc: "1 \<le> n \<Longrightarrow> ha_loop bars (Suc n) = ha_step bars n (ha_loop bars n)"
  by (simp add: ha_loop_def upt_Suc_append)

lemma ha_step_close: "ha_close (ha_step bars i df) = ha_close df"
  by (simp add: ha_step_def Let_def)

lemma ha_step_open:
  "ha_open (ha_step bars i df) =
     (ha_open df)[i := (ha_open df ! (i - 1) + ha_close df ! (i - 1)) / 2]"
  by (simp add: ha_step_def Let_def)

lemma ha_step_high:
  "ha_high (ha_step bars i df) =
     (ha_high df)[i := max (bar_high (bars ! i))
        (max (ha_open (ha_step bars i df) ! i) (ha_close df ! i))]"
  by (simp add: ha_step_def Let_def)

lemma ha_step_low:
  "ha_low (ha_step bars i df) =
     (ha_low df)[i := min (bar_low (bars ! i))
        (min (ha_open (ha_step bars i df) ! i) (ha_close df ! i))]"
  by (simp add: ha_step_def Let_def)

lemma ha_loop_shape:
  "ha_close (ha_loop bars n) = avg_ohlc bars \<and>
   length (ha_open (ha_loop bars n)) = length bars \<and>
   length (ha_high (ha_loop bars n)) = length bars \<and>
   length (ha_low (ha_loop bars n)) = length bars"
proof (induction n)
  case 0
  show ?case by (simp add: ha_loop_def ha_init_def avg_ohlc_def)
next
  case (Suc n)
  show ?case
  proof (cases "n = 0")
    case True
    then show ?thesis by (simp add: ha_loop_start ha_init_def avg_ohlc_def)
  next
    case False
    then have "ha_loop bars (Suc n) = ha_step bars n (ha_loop bars n)"
      by (simp add: ha_loop_Suc)
    then show ?thesis using Suc
      by (simp add: ha_step_close ha_step_open ha_step_high ha_step_low)
  qed
qed

lemma ha_loop_inv:
  "n < length bars \<Longrightarrow>
     ha_open (ha_loop bars (Suc n)) ! 0 = avg_ohlc bars ! 0 \<and>
     ha_high (ha_loop bars (Suc n)) ! 0 = avg_ohlc bars ! 0 \<and>
     ha_low (ha_loop bars (Suc n)) ! 0 = avg_ohlc bars ! 0 \<and>
     (\<forall>i. 1 \<le> i \<and> i \<le> n \<longrightarrow>
        ha_open (ha_loop bars (Suc n)) ! i =
          (ha_open (ha_loop bars (Suc n)) ! (i - 1) + avg_ohlc bars ! (i - 1)) / 2 \<and>
        ha_high (ha_loop bars (Suc n)) ! i =
          max (bar_high (bars ! i)) (max (ha_open (ha_loop bars (Suc n)) ! i) (avg_ohlc bars ! i)) \<and>
        ha_low (ha_loop bars (Suc n)) ! i =
          min (bar_low (bars ! i)) (min (ha_open (ha_loop bars (Suc n)) ! i) (avg_ohlc bars ! i)))"
proof (induction n)
  case 0
  show ?case by (simp add: ha_loop_start ha_init_def)
next
  case (Suc n)
  let ?d = "ha_loop bars (Suc n)"
  let ?d' = "ha_loop bars (Suc (Suc n))"
  have step: "?d' = ha_step bars (Suc n) ?d"
    by (simp add: ha_loop_Suc)
  have cl: "ha_close ?d = avg_ohlc bars"
    and len: "Suc n < length (ha_open ?d)" "Suc n < length (ha_high ?d)"
      "Suc n < length (ha_low ?d)"
    using Suc.prems ha_loop_shape[of bars "Suc n"] by simp_all
  have o': "ha_open ?d' = (ha_open ?d)[Suc n := (ha_open ?d ! n + avg_ohlc bars ! n) / 2]"
    by (simp add: step ha_step_open cl)
  have h': "ha_high ?d' = (ha_high ?d)[Suc n := max (bar_high (bars ! Suc n))
        (max (ha_open ?d' ! Suc n) (avg_ohlc bars ! Suc n))]"
    by (simp add: step ha_step_high cl)
  have l': "ha_low ?d' = (ha_low ?d)[Suc n := min (bar_low (bars ! Suc n))
        (min (ha_open ?d' ! Suc n) (avg_ohlc bars ! Suc n))]"
    by (simp add: step ha_step_low cl)
  have old: "\<And>i. i \<le> n \<Longrightarrow> ha_open ?d' ! i = ha_open ?d ! i"
    "\<And>i. i \<le> n \<Longrightarrow> ha_high ?d' ! i = ha_high ?d ! i"
    "\<And>i. i \<le> n \<Longrightarrow> ha_low ?d' ! i = ha_low ?d ! i"
    by (simp_all add: o' h' l')
  have ih0: "ha_open ?d ! 0 = avg_ohlc bars ! 0" "ha_high ?d ! 0 = avg_ohlc bars ! 0"
    "ha_low ?d ! 0 = avg_ohlc bars ! 0"
    using Suc by simp_all
  have ih: "\<And>i. 1 \<le> i \<Longrightarrow> i \<le> n \<Longrightarrow>
      ha_open ?d ! i = (ha_open ?d ! (i - 1) + avg_ohlc bars ! (i - 1)) / 2 \<and>
      ha_high ?d ! i = max (bar_high (bars ! i)) (max (ha_open ?d ! i) (avg_ohlc bars ! i)) \<and>
      ha_low ?d ! i = min (bar_low (bars ! i)) (min (ha_open ?d ! i) (avg_ohlc bars ! i))"
    using Suc by simp
  have new: "ha_open ?d' ! Suc n = (ha_open ?d' ! n + avg_ohlc bars ! n) / 2"
    "ha_high ?d' ! Suc n =
       max (bar_high (bars ! Suc n)) (max (ha_open ?d' ! Suc n) (avg_ohlc bars ! Suc n))"
    "ha_low ?d' ! Suc n =
       min (bar_low (bars ! Suc n)) (min (ha_open ?d' ! Suc n) (avg_ohlc bars ! Suc n))"
  proof -
    show "ha_open ?d' ! Suc n = (ha_open ?d' ! n + avg_ohlc bars ! n) / 2"
      using len(1) old(1)[of n] by (simp add: o')
    show "ha_high ?d' ! Suc n =
       max (bar_high (bars ! Suc n)) (max (ha_open ?d' ! Suc n) (avg_ohlc bars ! Suc n))"
      using len(2) by (subst h') simp
    show "ha_low ?d' ! Suc n =
       min (bar_low (bars ! Suc n)) (min (ha_open ?d' ! Suc n) (avg_ohlc bars ! Suc n))"
      using len(3) by (subst l') simp
  qed
  show ?case
  proof (intro conjI allI impI)
    show "ha_open ?d' ! 0 = avg_ohlc bars ! 0" by (simp add: old(1) ih0)
    show "ha_high ?d' ! 0 = avg_ohlc bars ! 0" by (simp add: old(2) ih0)
    show "ha_low ?d' ! 0 = avg_ohlc bars ! 0" by (simp add: old(3) ih0)
  next
    fix i assume i: "1 \<le> i \<and> i \<le> Suc n"
    show "ha_open ?d' ! i = (ha_open ?d' ! (i - 1) + avg_ohlc bars ! (i - 1)) / 2"
    proof (cases "i = Suc n")
      case True
      then show ?thesis using new(1) by simp
    next
      case False
      with i have "i \<le> n" "i - 1 \<le> n" "1 \<le> i" by arith+
      then show ?thesis using ih[of i] by (simp add: old(1))
    qed
  next
    fix i assume i: "1 \<le> i \<and> i \<le> Suc n"
    show "ha_high ?d' ! i = max (bar_high (bars ! i)) (max (ha_open ?d' ! i) (avg_ohlc bars ! i))"
    proof (cases "i = Suc n")
      case True
      then show ?thesis using new(2) by simp
    next
      case False
      with i have "i \<le> n" "1 \<le> i" by arith+
      then show ?thesis using ih[of i] by (simp add: old)
    qed
  next
    fix i assume i: "1 \<le> i \<and> i \<le> Suc n"
    show "ha_low ?d' ! i = min (bar_low (bars ! i)) (min (ha_open ?d' ! i) (avg_ohlc bars ! i))"
    proof (cases "i = Suc n")
      case True
      then show ?thesis using new(3) by simp
    next
      case False
      with i have "i \<le> n" "1 \<le> i" by arith+
      then show ?thesis using ih[of i] by (simp add: old)
    qed
  qed
qed

section \<open>EMA smoother: the recurrence (C7) and the missing period check (C3)\<close>

lemma compute_ema_returns:
  assumes "prices \<noteq> []" and "period \<noteq> - 1"
  shows "\<exists>ema. compute_ema prices period = Inr ema \<and>
           length ema = length prices \<and>
           ema ! 0 = prices ! 0 \<and>
           (\<forall>i. 1 \<le> i \<and> i < length prices \<longrightarrow>
              ema ! i = prices ! i * (2 / (real_of_int period + 1))
                        + ema ! (i - 1) * (1 - 2 / (real_of_int period + 1)))"
proof -
  let ?a = "2 / real_of_int (period + 1)"
  let ?e = "ema_loop prices ?a (length prices)"
  obtain n where n: "length prices = Suc n"
    using assms(1) by (cases prices) simp_all
  have ne: "period + 1 \<noteq> 0" using assms(2) by arith
  have run: "compute_ema prices period = Inr ?e"
    using assms(1) ne by (cases prices) (simp_all add: compute_ema_def)
  have a: "?a = 2 / (real_of_int period + 1)" by simp
  have inv: "?e ! 0 = prices ! 0 \<and>
     (\<forall>i. 1 \<le> i \<and> i \<le> n \<longrightarrow> ?e ! i = prices ! i * ?a + ?e ! (i - 1) * (1 - ?a))"
    using ema_loop_inv[of n prices ?a] n by simp
  have rec: "\<forall>i. 1 \<le> i \<and> i < length prices \<longrightarrow>
      ?e ! i = prices ! i * ?a + ?e ! (i - 1) * (1 - ?a)"
    using inv n by (simp add: less_Suc_eq_le)
  show ?thesis
    using run inv rec length_ema_loop[of prices ?a "length prices"] unfolding a by blast
qed

text \<open>
  Claim C7. For a non-empty price sequence and an integer period of at least 1,
  \<open>compute_ema\<close> returns a sequence of the same length whose first value is the first
  price and whose value at every index \<open>i \<ge> 1\<close> is
  \<open>price[i] * alpha + ema[i-1] * (1 - alpha)\<close> with \<open>alpha = 2 / (period + 1)\<close>.
\<close>

theorem compute_ema_recurrence:
  assumes "prices \<noteq> []" and "1 \<le> period"
  shows "\<exists>ema. compute_ema prices period = Inr ema \<and>
           length ema = length prices \<and>
           ema ! 0 = prices ! 0 \<and>
           (\<forall>i. 1 \<le> i \<and> i < length prices \<longrightarrow>
              ema ! i = prices ! i * (2 / (real_of_int period + 1))
                        + ema ! (i - 1) * (1 - 2 / (real_of_int period + 1)))"
  using assms compute_ema_returns[of prices period] by simp

text \<open>The theorem at the prices 10, 20, 40 with period 3 (\<open>alpha = 1/2\<close>).\<close>

theorem compute_ema_recurrence_witness:
  "[10, 20, 40 :: real] \<noteq> [] \<and> (1::int) \<le> 3 \<and>
   compute_ema [10, 20, 40] 3 = Inr [10, 15, 55 / 2] \<and>
   (\<exists>ema. compute_ema [10, 20, 40] 3 = Inr ema \<and> length ema = 3 \<and> ema ! 0 = 10 \<and>
      ema ! 1 = 20 * (1 / 2) + ema ! 0 * (1 / 2) \<and> ema ! 2 = 40 * (1 / 2) + ema ! 1 * (1 / 2))"
proof -
  have run: "compute_ema [10, 20, 40] 3 = Inr [10, 15, 55 / 2]"
    by (simp add: compute_ema_def ema_loop_def ema_step_def upt_rec)
  from compute_ema_recurrence[of "[10, 20, 40]" 3]
  obtain ema where e: "compute_ema [10, 20, 40] 3 = Inr ema" "length ema = 3" "ema ! 0 = 10"
    "\<forall>i. 1 \<le> i \<and> i < 3 \<longrightarrow> ema ! i = [10, 20, 40] ! i * (2 / (real_of_int 3 + 1))
                        + ema ! (i - 1) * (1 - 2 / (real_of_int 3 + 1))"
    by auto
  from e(4) have "ema ! 1 = 20 * (1 / 2) + ema ! 0 * (1 / 2)"
    "ema ! 2 = 40 * (1 / 2) + ema ! 1 * (1 / 2)"
    by simp_all
  with e run show ?thesis by simp
qed

text \<open>
  Claim C3 as stated fails: the code has no period check, and a period below 1 is
  evaluated like any other. At period 0 the smoothing factor is 2 and a sequence is returned.
\<close>

theorem compute_ema_period_zero_counterexample:
  "(0::int) < 1 \<and> compute_ema [10, 20] 0 = Inr [10, 30]"
  by (simp add: compute_ema_def ema_loop_def ema_step_def upt_rec)

text \<open>
  Claim C3, amended. \<open>compute_ema\<close> does not validate the period. With a period
  below 1 it fails only at \<open>period = -1\<close>, by the division by zero of
  \<open>2 / (period + 1)\<close>; at every other period below 1 and a non-empty price sequence it
  returns the sequence of the recurrence with \<open>alpha = 2 / (period + 1)\<close>.
\<close>

theorem compute_ema_period_below_one:
  assumes "period < 1"
  shows "(period = - 1 \<longrightarrow> compute_ema prices period = Inl ZeroDivisionError) \<and>
         (period \<noteq> - 1 \<and> prices \<noteq> [] \<longrightarrow>
            (\<exists>ema. compute_ema prices period = Inr ema \<and>
               length ema = length prices \<and>
               ema ! 0 = prices ! 0 \<and>
               (\<forall>i. 1 \<le> i \<and> i < length prices \<longrightarrow>
                  ema ! i = prices ! i * (2 / (real_of_int period + 1))
                            + ema ! (i - 1) * (1 - 2 / (real_of_int period + 1)))))"
proof (intro conjI impI)
  assume "period = - 1"
  then show "compute_ema prices period = Inl ZeroDivisionError"
    by (simp add: compute_ema_def)
next
  assume "period \<noteq> - 1 \<and> prices \<noteq> []"
  then show "\<exists>ema. compute_ema prices period = Inr ema \<and>
               length ema = length prices \<and>
               ema ! 0 = prices ! 0 \<and>
               (\<forall>i. 1 \<le> i \<and> i < length prices \<longrightarrow>
                  ema ! i = prices ! i * (2 / (real_of_int period + 1))
                            + ema ! (i - 1) * (1 - 2 / (real_of_int period + 1)))"
    using compute_ema_returns[of prices period] by simp
qed

text \<open>The amended claim at period \<open>-1\<close> and at period \<open>-2\<close> (\<open>alpha = -2\<close>).\<close>

theorem compute_ema_period_below_one_witness:
  "(- 1::int) < 1 \<and> compute_ema [10, 20] (- 1) = Inl ZeroDivisionError \<and>
   (- 2::int) < 1 \<and> (- 2::int) \<noteq> - 1 \<and> [10, 20 :: real] \<noteq> [] \<and>
   compute_ema [10, 20] (- 2) = Inr [10, - 10] \<and>
   (\<exists>ema. compute_ema [10, 20] (- 2) = Inr ema \<and> length ema = 2 \<and> ema ! 0 = 10 \<and>
      ema ! 1 = 20 * (- 2) + ema ! 0 * 3)"
proof -
  have a: "compute_ema [10, 20] (- 1) = Inl ZeroDivisionError"
    using compute_ema_period_below_one[of "- 1" "[10, 20]"] by simp
  have run: "compute_ema [10, 20] (- 2) = Inr [10, - 10]"
    by (simp add: compute_ema_def ema_loop_def ema_step_def upt_rec)
  from compute_ema_period_below_one[of "- 2" "[10, 20]"]
  obtain ema where e: "compute_ema [10, 20] (- 2) = Inr ema" "length ema = 2" "ema ! 0 = 10"
    "\<forall>i. 1 \<le> i \<and> i < 2 \<longrightarrow> ema ! i = [10, 20] ! i * (2 / (real_of_int (- 2) + 1))
                        + ema ! (i - 1) * (1 - 2 / (real_of_int (- 2) + 1))"
    by auto
  from e(4) have "ema ! 1 = 20 * (- 2) + ema ! 0 * 3"
    by simp
  with e a run show ?thesis by simp
qed

section \<open>Heikin-Ashi transformer: the recurrence (C6) and the first bar (C2)\<close>

lemma nth_avg_ohlc:
  "i < length bars \<Longrightarrow>
     avg_ohlc bars ! i =
       (bar_open (bars ! i) + bar_high (bars ! i) + bar_low (bars ! i) + bar_close (bars ! i)) / 4"
  by (simp add: avg_ohlc_def)

text \<open>
  Claim C6. For a raw bar sequence of length \<open>n \<ge> 1\<close> the transform returns four
  columns of length \<open>n\<close> with \<open>ha_close[i] = (open[i] + high[i] + low[i] + close[i]) / 4\<close>
  at every index, \<open>ha_open[0] = ha_close[0]\<close>, and at every index \<open>i \<ge> 1\<close>
  \<open>ha_open[i] = (ha_open[i-1] + ha_close[i-1]) / 2\<close>,
  \<open>ha_high[i] = max(raw_high[i], ha_open[i], ha_close[i])\<close> and
  \<open>ha_low[i] = min(raw_low[i], ha_open[i], ha_close[i])\<close>. The result depends on the raw
  sequence alone, so computing it again from the same sequence gives the same frame.
\<close>

theorem compute_heikin_ashi_recurrence:
  assumes "bars \<noteq> []"
  shows "\<exists>df. compute_heikin_ashi bars = Inr df \<and>
           length (ha_open df) = length bars \<and> length (ha_high df) = length bars \<and>
           length (ha_low df) = length bars \<and> length (ha_close df) = length bars \<and>
           (\<forall>i. i < length bars \<longrightarrow>
              ha_close df ! i =
                (bar_open (bars ! i) + bar_high (bars ! i) + bar_low (bars ! i)
                   + bar_close (bars ! i)) / 4) \<and>
           ha_open df ! 0 = ha_close df ! 0 \<and>
           (\<forall>i. 1 \<le> i \<and> i < length bars \<longrightarrow>
              ha_open df ! i = (ha_open df ! (i - 1) + ha_close df ! (i - 1)) / 2 \<and>
              ha_high df ! i = max (bar_high (bars ! i)) (max (ha_open df ! i) (ha_close df ! i)) \<and>
              ha_low df ! i = min (bar_low (bars ! i)) (min (ha_open df ! i) (ha_close df ! i))) \<and>
           (\<forall>bars'. bars' = bars \<longrightarrow> compute_heikin_ashi bars' = Inr df)"
proof -
  let ?d = "ha_loop bars (length bars)"
  obtain n where n: "length bars = Suc n"
    using assms by (cases bars) simp_all
  have run: "compute_heikin_ashi bars = Inr ?d"
    using assms by (simp add: compute_heikin_ashi_def)
  have shape: "ha_close ?d = avg_ohlc bars" "length (ha_open ?d) = length bars"
    "length (ha_high ?d) = length bars" "length (ha_low ?d) = length bars"
    using ha_loop_shape[of bars "length bars"] by simp_all
  have lc: "length (ha_close ?d) = length bars"
    by (simp add: shape(1) avg_ohlc_def)
  have cl: "\<forall>i. i < length bars \<longrightarrow>
      ha_close ?d ! i =
        (bar_open (bars ! i) + bar_high (bars ! i) + bar_low (bars ! i) + bar_close (bars ! i)) / 4"
    by (simp add: shape(1) nth_avg_ohlc)
  have inv: "ha_open ?d ! 0 = avg_ohlc bars ! 0 \<and>
     ha_high ?d ! 0 = avg_ohlc bars ! 0 \<and>
     ha_low ?d ! 0 = avg_ohlc bars ! 0 \<and>
     (\<forall>i. 1 \<le> i \<and> i \<le> n \<longrightarrow>
        ha_open ?d ! i = (ha_open ?d ! (i - 1) + avg_ohlc bars ! (i - 1)) / 2 \<and>
        ha_high ?d ! i = max (bar_high (bars ! i)) (max (ha_open ?d ! i) (avg_ohlc bars ! i)) \<and>
        ha_low ?d ! i = min (bar_low (bars ! i)) (min (ha_open ?d ! i) (avg_ohlc bars ! i)))"
    using ha_loop_inv[of n bars] n by simp
  have o0: "ha_open ?d ! 0 = ha_close ?d ! 0"
    unfolding shape(1) using inv by blast
  have bound: "\<And>i. i < length bars \<longleftrightarrow> i \<le> n"
    using n by auto
  have rec: "\<forall>i. 1 \<le> i \<and> i < length bars \<longrightarrow>
      ha_open ?d ! i = (ha_open ?d ! (i - 1) + ha_close ?d ! (i - 1)) / 2 \<and>
      ha_high ?d ! i = max (bar_high (bars ! i)) (max (ha_open ?d ! i) (ha_close ?d ! i)) \<and>
      ha_low ?d ! i = min (bar_low (bars ! i)) (min (ha_open ?d ! i) (ha_close ?d ! i))"
    unfolding shape(1) bound using inv by blast
  have same: "\<forall>bars'. bars' = bars \<longrightarrow> compute_heikin_ashi bars' = Inr ?d"
    using run by simp
  show ?thesis
    using run shape(2,3,4) lc cl o0 rec same by blast
qed

text \<open>The theorem at three bars; at the last one the Heikin-Ashi open lies below the raw low.\<close>

theorem compute_heikin_ashi_recurrence_witness:
  "[\<lparr>bar_open = 1, bar_high = 4, bar_low = 1, bar_close = 2\<rparr>,
    \<lparr>bar_open = 2, bar_high = 5, bar_low = 1, bar_close = 4\<rparr>,
    \<lparr>bar_open = 4, bar_high = 4, bar_low = 3, bar_close = 3\<rparr>] \<noteq> [] \<and>
   compute_heikin_ashi
     [\<lparr>bar_open = 1, bar_high = 4, bar_low = 1, bar_close = 2\<rparr>,
      \<lparr>bar_open = 2, bar_high = 5, bar_low = 1, bar_close = 4\<rparr>,
      \<lparr>bar_open = 4, bar_high = 4, bar_low = 3, bar_close = 3\<rparr>]
     = Inr \<lparr>ha_open = [2, 2, 5 / 2], ha_high = [2, 5, 4], ha_low = [2, 1, 5 / 2],
            ha_close = [2, 3, 7 / 2]\<rparr> \<and>
   (\<exists>df. compute_heikin_ashi
      [\<lparr>bar_open = 1, bar_high = 4, bar_low = 1, bar_close = 2\<rparr>,
       \<lparr>bar_open = 2, bar_high = 5, bar_low = 1, bar_close = 4\<rparr>,
       \<lparr>bar_open = 4, bar_high = 4, bar_low = 3, bar_close = 3\<rparr>] = Inr df \<and>
      length (ha_close df) = 3 \<and> ha_close df ! 2 = 7 / 2 \<and>
      ha_open df ! 0 = ha_close df ! 0 \<and>
      ha_open df ! 2 = (ha_open df ! 1 + ha_close df ! 1) / 2 \<and>
      ha_high df ! 2 = max 4 (max (ha_open df ! 2) (ha_close df ! 2)) \<and>
      ha_low df ! 2 = min 3 (min (ha_open df ! 2) (ha_close df ! 2)))"
proof -
  let ?bars = "[\<lparr>bar_open = 1, bar_high = 4, bar_low = 1, bar_close = 2\<rparr>,
      \<lparr>bar_open = 2, bar_high = 5, bar_low = 1, bar_close = 4\<rparr>,
      \<lparr>bar_open = 4, bar_high = 4, bar_low = 3, bar_close = 3\<rparr>]"
  have run: "compute_heikin_ashi ?bars
     = Inr \<lparr>ha_open = [2, 2, 5 / 2], ha_high = [2, 5, 4], ha_low = [2, 1, 5 / 2],
            ha_close = [2, 3, 7 / 2]\<rparr>"
    by (simp add: compute_heikin_ashi_def ha_loop_def ha_step_def ha_init_def avg_ohlc_def
        upt_rec)
  have ne: "?bars \<noteq> []" by simp
  from compute_heikin_ashi_recurrence[OF ne]
  obtain df where d: "compute_heikin_ashi ?bars = Inr df"
    "length (ha_close df) = length ?bars"
    "\<forall>i. i < length ?bars \<longrightarrow>
              ha_close df ! i =
                (bar_open (?bars ! i) + bar_high (?bars ! i) + bar_low (?bars ! i)
                   + bar_close (?bars ! i)) / 4"
    "ha_open df ! 0 = ha_close df ! 0"
    "\<forall>i. 1 \<le> i \<and> i < length ?bars \<longrightarrow>
              ha_open df ! i = (ha_open df ! (i - 1) + ha_close df ! (i - 1)) / 2 \<and>
              ha_high df ! i = max (bar_high (?bars ! i)) (max (ha_open df ! i) (ha_close df ! i)) \<and>
              ha_low df ! i = min (bar_low (?bars ! i)) (min (ha_open df ! i) (ha_close df ! i))"
    by blast
  have c2: "ha_close df ! 2 = 7 / 2"
    using d(3)[rule_format, of 2] by simp
  have r2: "ha_open df ! 2 = (ha_open df ! 1 + ha_close df ! 1) / 2"
    "ha_high df ! 2 = max 4 (max (ha_open df ! 2) (ha_close df ! 2))"
    "ha_low df ! 2 = min 3 (min (ha_open df ! 2) (ha_close df ! 2))"
    using d(5)[rule_format, of 2] by simp_all
  have len: "length (ha_close df) = 3" using d(2) by simp
  show ?thesis
    using ne run d(1) len c2 d(4) r2 by blast
qed

text \<open>
  At index 0 the loop never runs: the high and the low keep the value copied from the
  close column, whatever the raw high and low are.
\<close>

lemma compute_heikin_ashi_first_row:
  assumes "bars \<noteq> []"
  shows "\<exists>df. compute_heikin_ashi bars = Inr df \<and>
           ha_high df ! 0 = ha_close df ! 0 \<and> ha_low df ! 0 = ha_close df ! 0"
proof -
  obtain n where n: "length bars = Suc n"
    using assms by (cases bars) simp_all
  have "ha_high (ha_loop bars (length bars)) ! 0 = avg_ohlc bars ! 0"
    "ha_low (ha_loop bars (length bars)) ! 0 = avg_ohlc bars ! 0"
    using ha_loop_inv[of n bars] n by simp_all
  moreover have "ha_close (ha_loop bars (length bars)) = avg_ohlc bars"
    using ha_loop_shape[of bars "length bars"] by simp
  ultimately show ?thesis
    using assms by (simp add: compute_heikin_ashi_def)
qed

text \<open>
  Claim C2 says that a single bar \<open>{o, h, l, c}\<close> yields open = close = \<open>(o+h+l+c)/4\<close>,
  high = \<open>h\<close> and low = \<open>l\<close>. The code yields the open and the close, but for the bar
  \<open>{1, 4, 1, 2}\<close> its high and low are both 2, not the raw high 4 and the raw low 1.
\<close>

theorem compute_heikin_ashi_single_bar:
  "compute_heikin_ashi [\<lparr>bar_open = 1, bar_high = 4, bar_low = 1, bar_close = 2\<rparr>]
     = Inr \<lparr>ha_open = [2], ha_high = [2], ha_low = [2], ha_close = [2]\<rparr>"
  by (simp add: compute_heikin_ashi_def ha_loop_def ha_init_def avg_ohlc_def)

section \<open>Indicator store: the S1 update (C1)\<close>

text \<open>
  Claim C1 says that every S1 bar update recomputes the S1 EMA over the Heikin-Ashi close
  prices. The handler passes the close column of the raw bars instead. For the two example
  bars the raw closes are 2 and 4 and the Heikin-Ashi closes are 2 and 3: with period 3 the
  handler stores the EMA 2, 3 of the raw closes next to the Heikin-Ashi rows, where the EMA
  of the Heikin-Ashi closes is 2, 5/2, the value that \<open>start_s1\<close> stores for the same bars
  and that the S2 handler stores for S2.
\<close>

theorem on_s1_bar_update_ema_of_raw_close:
  "on_s1_bar_update (flat_connector [] None) example_bars True =
     Inr ((flat_connector [] None)
            \<lparr>s1_bars := Some example_bars,
             s1_ha_bars := Some
               [\<lparr>row_open = 2, row_high = 2, row_low = 2, row_close = 2, row_ema = 2\<rparr>,
                \<lparr>row_open = 2, row_high = 5, row_low = 1, row_close = 3, row_ema = 3\<rparr>]\<rparr>,
          [Execute, ManagePositions]) \<and>
   compute_ema (map bar_close example_bars) 3 = Inr [2, 3] \<and>
   compute_ema [2, 3] 3 = Inr [2, 5 / 2] \<and>
   start_s1 (flat_connector [] None) example_bars =
     Inr ((flat_connector [] None)
            \<lparr>s1_bars := Some example_bars,
             s1_ha_bars := Some
               [\<lparr>row_open = 2, row_high = 2, row_low = 2, row_close = 2, row_ema = 2\<rparr>,
                \<lparr>row_open = 2, row_high = 5, row_low = 1, row_close = 3, row_ema = 5 / 2\<rparr>]\<rparr>) \<and>
   on_s2_bar_update (flat_connector [] None) example_bars True =
     Inr ((flat_connector [] None)
            \<lparr>s2_bars := Some example_bars,
             s2_ha_bars := Some
               [\<lparr>row_open = 2, row_high = 2, row_low = 2, row_close = 2, row_ema = 2\<rparr>,
                \<lparr>row_open = 2, row_high = 5, row_low = 1, row_close = 3, row_ema = 5 / 2\<rparr>]\<rparr>)"
proof -
  have ha: "compute_heikin_ashi example_bars =
      Inr \<lparr>ha_open = [2, 2], ha_high = [2, 5], ha_low = [2, 1], ha_close = [2, 3]\<rparr>"
    by (simp add: compute_heikin_ashi_def ha_loop_def ha_step_def ha_init_def avg_ohlc_def
        example_bars_def upt_rec)
  have raw: "compute_ema (map bar_close example_bars) 3 = Inr [2, 3]"
    by (simp add: compute_ema_def ema_loop_def ema_step_def example_bars_def upt_rec)
  have smooth: "compute_ema [2, 3] 3 = Inr [2, 5 / 2]"
    by (simp add: compute_ema_def ema_loop_def ema_step_def upt_rec)
  have p: "cfg_ema_period (config (flat_connector [] None)) = 3"
    by (simp add: flat_connector_def example_config_def)
  have upd: "on_s1_bar_update (flat_connector [] None) example_bars True =
     Inr ((flat_connector [] None)
            \<lparr>s1_bars := Some example_bars,
             s1_ha_bars := Some
               [\<lparr>row_open = 2, row_high = 2, row_low = 2, row_close = 2, row_ema = 2\<rparr>,
                \<lparr>row_open = 2, row_high = 5, row_low = 1, row_close = 3, row_ema = 3\<rparr>]\<rparr>,
          [Execute, ManagePositions])"
    by (simp add: on_s1_bar_update_def ha raw p with_ema_def)
  have st: "start_s1 (flat_connector [] None) example_bars =
     Inr ((flat_connector [] None)
            \<lparr>s1_bars := Some example_bars,
             s1_ha_bars := Some
               [\<lparr>row_open = 2, row_high = 2, row_low = 2, row_close = 2, row_ema = 2\<rparr>,
                \<lparr>row_open = 2, row_high = 5, row_low = 1, row_close = 3, row_ema = 5 / 2\<rparr>]\<rparr>)"
    by (simp add: start_s1_def ha smooth p with_ema_def)
  have p2: "cfg_vix_ema_period (config (flat_connector [] None)) = 3"
    by (simp add: flat_connector_def example_config_def)
  have s2: "on_s2_bar_update (flat_connector [] None) example_bars True =
     Inr ((flat_connector [] None)
            \<lparr>s2_bars := Some example_bars,
             s2_ha_bars := Some
               [\<lparr>row_open = 2, row_high = 2, row_low = 2, row_close = 2, row_ema = 2\<rparr>,
                \<lparr>row_open = 2, row_high = 5, row_low = 1, row_close = 3, row_ema = 5 / 2\<rparr>]\<rparr>)"
    by (simp add: on_s2_bar_update_def ha smooth p2 with_ema_def)
  show ?thesis using upd raw smooth st s2 by blast
qed


section \<open>Decimal rendering of order ids\<close>

declare str_nat.simps [simp del]

lemma digit_char_inj: "a < 10 \<Longrightarrow> b < 10 \<Longrightarrow> digit_char a = digit_char b \<Longrightarrow> a = b"
  by (simp add: digit_char_def)

lemma digit_char_not_minus: "d < 10 \<Longrightarrow> digit_char d \<noteq> CHR ''-''"
  by (simp add: digit_char_def char_of_eq_iff take_bit_eq_mod)

lemma str_nat_not_Nil: "str_nat n \<noteq> []"
  by (subst str_nat.simps) simp

lemma hd_str_nat_not_minus: "hd (str_nat n) \<noteq> CHR ''-''"
proof (induction n rule: str_nat.induct)
  case (1 n)
  show ?case
  proof (cases "n < 10")
    case True
    then show ?thesis
      by (subst str_nat.simps) (simp add: digit_char_not_minus)
  next
    case False
    then have "hd (str_nat n) = hd (str_nat (n div 10))"
      by (subst str_nat.simps) (simp add: str_nat_not_Nil)
    then show ?thesis using 1 False by simp
  qed
qed

lemma str_nat_inj: "str_nat a = str_nat b \<Longrightarrow> a = b"
proof (induction a arbitrary: b rule: str_nat.induct)
  case (1 a)
  have ua: "str_nat a = (if a < 10 then [digit_char a] else str_nat (a div 10) @ [digit_char (a mod 10)])"
    by (rule str_nat.simps)
  have ub: "str_nat b = (if b < 10 then [digit_char b] else str_nat (b div 10) @ [digit_char (b mod 10)])"
    by (rule str_nat.simps)
  show ?case
  proof (cases "a < 10")
    case a: True
    show ?thesis
    proof (cases "b < 10")
      case True
      then show ?thesis using a 1(2) ua ub by (simp add: digit_char_inj)
    next
      case False
      then have "[digit_char a] = str_nat (b div 10) @ [digit_char (b mod 10)]"
        using a 1(2) ua ub by simp
      then show ?thesis using str_nat_not_Nil[of "b div 10"] by simp
    qed
  next
    case a: False
    show ?thesis
    proof (cases "b < 10")
      case True
      then have "str_nat (a div 10) @ [digit_char (a mod 10)] = [digit_char b]"
        using a 1(2) ua ub by simp
      then show ?thesis using str_nat_not_Nil[of "a div 10"] by simp
    next
      case False
      then have eq: "str_nat (a div 10) = str_nat (b div 10)"
        "digit_char (a mod 10) = digit_char (b mod 10)"
        using a 1(2) ua ub by simp_all
      have "a div 10 = b div 10" using 1(1)[OF a eq(1)] .
      moreover have "a mod 10 = b mod 10" using eq(2) by (simp add: digit_char_inj)
      ultimately show ?thesis by (metis div_mult_mod_eq)
    qed
  qed
qed

lemma str_int_inj: "str_int i = str_int j \<Longrightarrow> i = j"
proof -
  assume eq: "str_int i = str_int j"
  have neg: "\<And>a b. CHR ''-'' # str_nat a \<noteq> str_nat b"
  proof
    fix a b assume "CHR ''-'' # str_nat a = str_nat b"
    then have "hd (str_nat b) = CHR ''-''" by (metis list.sel(1))
    then show False using hd_str_nat_not_minus by blast
  qed
  show "i = j"
  proof (cases "i < 0")
    case i: True
    show ?thesis
    proof (cases "j < 0")
      case True
      then have "nat (- i) = nat (- j)" using eq i by (simp add: str_int_def str_nat_inj)
      then show ?thesis using i True by simp
    next
      case False
      then show ?thesis using eq i neg by (simp add: str_int_def)
    qed
  next
    case i: False
    show ?thesis
    proof (cases "j < 0")
      case True
      then show ?thesis using eq i neg[of "nat (- j)" "nat i"] by (simp add: str_int_def)
    next
      case False
      then have "nat i = nat j" using eq i by (simp add: str_int_def str_nat_inj)
      then show ?thesis using i False by simp
    qed
  qed
qed


section \<open>Fill of the entry order (C8)\<close>

text \<open>
  Claim C8 as stated fails on two points. The event source reports every execution of an
  order, so an entry order of 2 contracts can fill in two executions of 1 contract each.
  The first execution, at 15000, leaves the state \<open>after_first_fill\<close> with the group
  \<^verbatim>\<open>oca_17\<close> in use. On the second execution, at 15001, the handler sets the same group
  again, not a fresh one, and places a second stop order whose quantity is 2, the total
  quantity of the order, not the quantity 1 of the fill.
\<close>

theorem on_order_filled_second_execution_counterexample:
  "orderRef (trade_order (example_entry_trade ''BUY'')) = ''entry'' \<and>
   action (trade_order (example_entry_trade ''BUY'')) = ''BUY'' \<and>
   on_order_filled (flat_connector [] None) (example_entry_trade ''BUY'')
       \<lparr>fill_price = 15000, fill_shares = 1\<rparr> = Inr after_first_fill \<and>
   oca_group after_first_fill = Some ''oca_17'' \<and>
   on_order_filled after_first_fill (example_entry_trade ''BUY'')
       \<lparr>fill_price = 15001, fill_shares = 1\<rparr> =
     Inr (after_first_fill
            \<lparr>ib := (ib after_first_fill)
               \<lparr>placed := placed (ib after_first_fill) @
                  [\<lparr>action = ''SELL'', totalQuantity = 2, kind = StopOrder 14991,
                    orderRef = ''fixed_stop_loss'', ocaGroup = Some ''oca_17'',
                    outsideRth = True, orderId = 0\<rparr>]\<rparr>,
             oca_group := Some ''oca_17'', entry_price := Some 15001\<rparr>)"
proof -
  have s17: "str_int 17 = ''17''"
    by (simp add: str_int_def str_nat.simps digit_char_def char_of_eq_iff take_bit_eq_mod)
  show ?thesis
    by (simp add: on_order_filled_def placeOrder_def example_entry_trade_def
        flat_connector_def after_first_fill_def example_config_def s17)
qed

text \<open>
  Claim C8, amended. On a fill whose order reference is \<^verbatim>\<open>entry\<close>, with fill price \<open>p\<close>
  and action BUY (resp. SELL), of an order with total quantity \<open>Q\<close> and order id \<open>n\<close>, the
  handler records \<open>p\<close> as entry price, sets the OCA group to \<^verbatim>\<open>oca_\<close> followed by \<open>n\<close>,
  and places exactly one order: a stop order tagged \<^verbatim>\<open>fixed_stop_loss\<close> in that group,
  with the opposite action, quantity \<open>Q\<close>, stop price \<open>p - fixed_stoploss * 0.25\<close>
  (resp. \<open>p + fixed_stoploss * 0.25\<close>) and the outside-regular-hours flag set. The group
  id is a function of the order id alone, and the ids of two different orders differ.
\<close>

theorem on_order_filled_entry:
  assumes "orderRef (trade_order tr) = ''entry''"
  shows "(action (trade_order tr) = ''BUY'' \<longrightarrow>
           (\<exists>c'. on_order_filled c tr fl = Inr c' \<and>
              entry_price c' = Some (fill_price fl) \<and>
              oca_group c' = Some (''oca_'' @ str_int (orderId (trade_order tr))) \<and>
              placed (ib c') = placed (ib c) @
                [\<lparr>action = ''SELL'', totalQuantity = totalQuantity (trade_order tr),
                  kind = StopOrder (fill_price fl - cfg_fixed_stoploss (config c) * 0.25),
                  orderRef = ''fixed_stop_loss'', ocaGroup = Some (''oca_'' @ str_int (orderId (trade_order tr))),
                  outsideRth = True, orderId = 0\<rparr>])) \<and>
         (action (trade_order tr) = ''SELL'' \<longrightarrow>
           (\<exists>c'. on_order_filled c tr fl = Inr c' \<and>
              entry_price c' = Some (fill_price fl) \<and>
              oca_group c' = Some (''oca_'' @ str_int (orderId (trade_order tr))) \<and>
              placed (ib c') = placed (ib c) @
                [\<lparr>action = ''BUY'', totalQuantity = totalQuantity (trade_order tr),
                  kind = StopOrder (fill_price fl + cfg_fixed_stoploss (config c) * 0.25),
                  orderRef = ''fixed_stop_loss'', ocaGroup = Some (''oca_'' @ str_int (orderId (trade_order tr))),
                  outsideRth = True, orderId = 0\<rparr>])) \<and>
         (\<forall>j. j \<noteq> orderId (trade_order tr) \<longrightarrow>
            ''oca_'' @ str_int j \<noteq> ''oca_'' @ str_int (orderId (trade_order tr)))"
proof (intro conjI impI allI)
  assume "action (trade_order tr) = ''BUY''"
  then show "\<exists>c'. on_order_filled c tr fl = Inr c' \<and>
              entry_price c' = Some (fill_price fl) \<and>
              oca_group c' = Some (''oca_'' @ str_int (orderId (trade_order tr))) \<and>
              placed (ib c') = placed (ib c) @
                [\<lparr>action = ''SELL'', totalQuantity = totalQuantity (trade_order tr),
                  kind = StopOrder (fill_price fl - cfg_fixed_stoploss (config c) * 0.25),
                  orderRef = ''fixed_stop_loss'', ocaGroup = Some (''oca_'' @ str_int (orderId (trade_order tr))),
                  outsideRth = True, orderId = 0\<rparr>]"
    using assms by (simp add: on_order_filled_def placeOrder_def Let_def)
next
  assume "action (trade_order tr) = ''SELL''"
  then show "\<exists>c'. on_order_filled c tr fl = Inr c' \<and>
              entry_price c' = Some (fill_price fl) \<and>
              oca_group c' = Some (''oca_'' @ str_int (orderId (trade_order tr))) \<and>
              placed (ib c') = placed (ib c) @
                [\<lparr>action = ''BUY'', totalQuantity = totalQuantity (trade_order tr),
                  kind = StopOrder (fill_price fl + cfg_fixed_stoploss (config c) * 0.25),
                  orderRef = ''fixed_stop_loss'', ocaGroup = Some (''oca_'' @ str_int (orderId (trade_order tr))),
                  outsideRth = True, orderId = 0\<rparr>]"
    using assms by (simp add: on_order_filled_def placeOrder_def Let_def)
next
  fix j assume "j \<noteq> orderId (trade_order tr)"
  then show "''oca_'' @ str_int j \<noteq> ''oca_'' @ str_int (orderId (trade_order tr))"
    using str_int_inj[of j "orderId (trade_order tr)"] by auto
qed


text \<open>The theorem at a BUY and at a SELL entry of 2 contracts, order id 17, filled at 15000.\<close>

theorem on_order_filled_entry_witness:
  "orderRef (trade_order (example_entry_trade ''BUY'')) = ''entry'' \<and>
   orderRef (trade_order (example_entry_trade ''SELL'')) = ''entry'' \<and>
   (\<exists>c'. on_order_filled (flat_connector [] None) (example_entry_trade ''BUY'')
             \<lparr>fill_price = 15000, fill_shares = 2\<rparr> = Inr c' \<and>
      entry_price c' = Some 15000 \<and> oca_group c' = Some ''oca_17'' \<and>
      placed (ib c') =
        [\<lparr>action = ''SELL'', totalQuantity = 2, kind = StopOrder 14990,
          orderRef = ''fixed_stop_loss'', ocaGroup = Some ''oca_17'',
          outsideRth = True, orderId = 0\<rparr>]) \<and>
   (\<exists>c'. on_order_filled (flat_connector [] None) (example_entry_trade ''SELL'')
             \<lparr>fill_price = 15000, fill_shares = 2\<rparr> = Inr c' \<and>
      entry_price c' = Some 15000 \<and> oca_group c' = Some ''oca_17'' \<and>
      placed (ib c') =
        [\<lparr>action = ''BUY'', totalQuantity = 2, kind = StopOrder 15010,
          orderRef = ''fixed_stop_loss'', ocaGroup = Some ''oca_17'',
          outsideRth = True, orderId = 0\<rparr>]) \<and>
   ''oca_'' @ str_int 18 \<noteq> ''oca_'' @ str_int 17"
proof -
  have s17: "str_int 17 = ''17''"
    by (simp add: str_int_def str_nat.simps digit_char_def char_of_eq_iff take_bit_eq_mod)
  have hb: "orderRef (trade_order (example_entry_trade ''BUY'')) = ''entry''"
    and hs: "orderRef (trade_order (example_entry_trade ''SELL'')) = ''entry''"
    by (simp_all add: example_entry_trade_def)
  have b: "\<exists>c'. on_order_filled (flat_connector [] None) (example_entry_trade ''BUY'')
             \<lparr>fill_price = 15000, fill_shares = 2\<rparr> = Inr c' \<and>
      entry_price c' = Some 15000 \<and> oca_group c' = Some ''oca_17'' \<and>
      placed (ib c') =
        [\<lparr>action = ''SELL'', totalQuantity = 2, kind = StopOrder 14990,
          orderRef = ''fixed_stop_loss'', ocaGroup = Some ''oca_17'',
          outsideRth = True, orderId = 0\<rparr>]"
    using on_order_filled_entry[OF hb, of "flat_connector [] None" "\<lparr>fill_price = 15000, fill_shares = 2\<rparr>"]
    by (simp add: example_entry_trade_def flat_connector_def example_config_def s17)
  have s: "\<exists>c'. on_order_filled (flat_connector [] None) (example_entry_trade ''SELL'')
             \<lparr>fill_price = 15000, fill_shares = 2\<rparr> = Inr c' \<and>
      entry_price c' = Some 15000 \<and> oca_group c' = Some ''oca_17'' \<and>
      placed (ib c') =
        [\<lparr>action = ''BUY'', totalQuantity = 2, kind = StopOrder 15010,
          orderRef = ''fixed_stop_loss'', ocaGroup = Some ''oca_17'',
          outsideRth = True, orderId = 0\<rparr>]"
    using on_order_filled_entry[OF hs, of "flat_connector [] None" "\<lparr>fill_price = 15000, fill_shares = 2\<rparr>"]
    by (simp add: example_entry_trade_def flat_connector_def example_config_def s17)
  have f: "''oca_'' @ str_int 18 \<noteq> ''oca_'' @ str_int 17"
    using on_order_filled_entry[OF hb, of "flat_connector [] None" "\<lparr>fill_price = 15000, fill_shares = 2\<rparr>"]
    by (simp add: example_entry_trade_def)
  show ?thesis using hb hs b s f by blast
qed


section \<open>Entry evaluation (C4, C5, C10)\<close>

text \<open>
  Claim C4. Entry evaluation places an order only if there is no S1 position, no pending
  trailing-stop order, and the realized daily PnL lies in the closed interval
  \<open>[lower_pnl, upper_pnl]\<close>. With a position or a pending trailing stop, or with a PnL
  outside the interval, the state is returned unchanged whatever the indicators are; with
  all three preconditions the configured rule variant decides.
\<close>

theorem entry_gate:
  "(\<forall>c'. entry c = Inr c' \<and> placed (ib c') \<noteq> placed (ib c) \<longrightarrow>
      \<not> has_open_position c \<and> \<not> has_pending_trailing_stop_order c \<and>
      (\<exists>pnl. get_daily_pnl c = Inr pnl \<and> lower_pnl c \<le> pnl \<and> pnl \<le> upper_pnl c)) \<and>
   (has_open_position c \<or> has_pending_trailing_stop_order c \<longrightarrow> entry c = Inr c) \<and>
   (\<forall>pnl. get_daily_pnl c = Inr pnl \<and> (pnl < lower_pnl c \<or> upper_pnl c < pnl) \<longrightarrow>
      entry c = Inr c) \<and>
   (\<forall>pnl. \<not> has_open_position c \<and> \<not> has_pending_trailing_stop_order c \<and>
      get_daily_pnl c = Inr pnl \<and> lower_pnl c \<le> pnl \<and> pnl \<le> upper_pnl c \<longrightarrow>
      entry c =
        Inr (if cfg_condition (config c) = Some ''1'' then condition1_entry c
             else if cfg_condition (config c) = Some ''2'' then condition2_entry c
             else c))"
proof (intro conjI allI impI)
  fix c' assume a: "entry c = Inr c' \<and> placed (ib c') \<noteq> placed (ib c)"
  then have ne: "entry c \<noteq> Inr c" by auto
  show "\<not> has_open_position c" using ne by (auto simp: entry_def)
  show "\<not> has_pending_trailing_stop_order c" using ne by (auto simp: entry_def)
  show "\<exists>pnl. get_daily_pnl c = Inr pnl \<and> lower_pnl c \<le> pnl \<and> pnl \<le> upper_pnl c"
    using a ne
    by (cases "get_daily_pnl c")
       (auto simp: entry_def is_pnl_within_limits_def split: if_splits)
next
  assume "has_open_position c \<or> has_pending_trailing_stop_order c"
  then show "entry c = Inr c" by (auto simp: entry_def)
next
  fix pnl assume "get_daily_pnl c = Inr pnl \<and> (pnl < lower_pnl c \<or> upper_pnl c < pnl)"
  then show "entry c = Inr c" by (auto simp: entry_def is_pnl_within_limits_def)
next
  fix pnl
  assume "\<not> has_open_position c \<and> \<not> has_pending_trailing_stop_order c \<and>
      get_daily_pnl c = Inr pnl \<and> lower_pnl c \<le> pnl \<and> pnl \<le> upper_pnl c"
  then show "entry c =
        Inr (if cfg_condition (config c) = Some ''1'' then condition1_entry c
             else if cfg_condition (config c) = Some ''2'' then condition2_entry c
             else c)"
    by (simp add: entry_def is_pnl_within_limits_def)
qed


text \<open>
  The theorem with the bounds \<open>[-100, 100]\<close> and a BUY signal (close 105 above EMA 100):
  a PnL of -150 suppresses the entry, -50 and the endpoint -100 allow it; a position, and a
  pending trailing stop on a state without S1 position, suppress it as well.
\<close>

theorem entry_gate_witness:
  "get_daily_pnl (flat_connector (pnl_summary (- 150)) (Some (example_frame 105 100)))
     = Inr (- 150) \<and>
   entry (flat_connector (pnl_summary (- 150)) (Some (example_frame 105 100)))
     = Inr (flat_connector (pnl_summary (- 150)) (Some (example_frame 105 100))) \<and>
   get_daily_pnl (flat_connector (pnl_summary (- 50)) (Some (example_frame 105 100)))
     = Inr (- 50) \<and>
   \<not> has_open_position (flat_connector (pnl_summary (- 50)) (Some (example_frame 105 100))) \<and>
   \<not> has_pending_trailing_stop_order
       (flat_connector (pnl_summary (- 50)) (Some (example_frame 105 100))) \<and>
   entry (flat_connector (pnl_summary (- 50)) (Some (example_frame 105 100)))
     = Inr (condition1_entry
         (flat_connector (pnl_summary (- 50)) (Some (example_frame 105 100)))) \<and>
   placed (ib (condition1_entry
         (flat_connector (pnl_summary (- 50)) (Some (example_frame 105 100)))))
     = [\<lparr>action = ''BUY'', totalQuantity = 2, kind = MarketOrder, orderRef = ''entry'',
         ocaGroup = Some [], outsideRth = True, orderId = 0\<rparr>] \<and>
   (\<exists>pnl. get_daily_pnl (flat_connector (pnl_summary (- 50)) (Some (example_frame 105 100)))
            = Inr pnl \<and> - 100 \<le> pnl \<and> pnl \<le> 100) \<and>
   entry (flat_connector (pnl_summary (- 100)) (Some (example_frame 105 100)))
     = Inr (condition1_entry
         (flat_connector (pnl_summary (- 100)) (Some (example_frame 105 100)))) \<and>
   has_open_position (long_connector []) \<and>
   entry (long_connector []) = Inr (long_connector []) \<and>
   has_pending_trailing_stop_order
     ((long_connector [pending_trailing_trade])\<lparr>s1_symbol := ''ES''\<rparr>) \<and>
   entry ((long_connector [pending_trailing_trade])\<lparr>s1_symbol := ''ES''\<rparr>)
     = Inr ((long_connector [pending_trailing_trade])\<lparr>s1_symbol := ''ES''\<rparr>)"
proof -
  let ?A = "flat_connector (pnl_summary (- 150)) (Some (example_frame 105 100))"
  let ?B = "flat_connector (pnl_summary (- 50)) (Some (example_frame 105 100))"
  let ?C = "flat_connector (pnl_summary (- 100)) (Some (example_frame 105 100))"
  let ?D = "long_connector []"
  let ?E = "(long_connector [pending_trailing_trade])\<lparr>s1_symbol := ''ES''\<rparr>"
  have pA: "get_daily_pnl ?A = Inr (- 150)"
    and pB: "get_daily_pnl ?B = Inr (- 50)"
    and pC: "get_daily_pnl ?C = Inr (- 100)"
    by (simp_all add: get_daily_pnl_def flat_connector_def pnl_summary_def)
  have lim: "lower_pnl ?A = - 100" "upper_pnl ?A = 100" "lower_pnl ?B = - 100"
    "upper_pnl ?B = 100" "lower_pnl ?C = - 100" "upper_pnl ?C = 100"
    "cfg_condition (config ?B) = Some ''1''" "cfg_condition (config ?C) = Some ''1''"
    by (simp_all add: flat_connector_def example_config_def)
  have flatB: "\<not> has_open_position ?B" "\<not> has_pending_trailing_stop_order ?B"
    and flatC: "\<not> has_open_position ?C" "\<not> has_pending_trailing_stop_order ?C"
    by (simp_all add: has_open_position_def has_pending_trailing_stop_order_def
        flat_connector_def)
  have posD: "has_open_position ?D"
    by (simp add: has_open_position_def long_connector_def)
  have penE: "has_pending_trailing_stop_order ?E"
    by (simp add: has_pending_trailing_stop_order_def long_connector_def
        pending_trailing_trade_def)
  have eA: "entry ?A = Inr ?A"
    using entry_gate[of ?A] pA lim(1,2) by simp
  have eB: "entry ?B = Inr (condition1_entry ?B)"
    using entry_gate[of ?B] pB lim(3,4,7) flatB by simp
  have eC: "entry ?C = Inr (condition1_entry ?C)"
    using entry_gate[of ?C] pC lim(5,6,8) flatC by simp
  have eD: "entry ?D = Inr ?D"
    using entry_gate[of ?D] posD by blast
  have eE: "entry ?E = Inr ?E"
    using entry_gate[of ?E] penE by blast
  have oB: "placed (ib (condition1_entry ?B))
     = [\<lparr>action = ''BUY'', totalQuantity = 2, kind = MarketOrder, orderRef = ''entry'',
         ocaGroup = Some [], outsideRth = True, orderId = 0\<rparr>]"
    by (simp add: condition1_entry_def placeOrder_def entry_order_def flat_connector_def
        example_frame_def example_config_def)
  have "placed (ib ?B) = []"
    by (simp add: flat_connector_def)
  then have "entry ?B = Inr (condition1_entry ?B) \<and>
      placed (ib (condition1_entry ?B)) \<noteq> placed (ib ?B)"
    using eB oB by simp
  then have "\<exists>pnl. get_daily_pnl ?B = Inr pnl \<and> lower_pnl ?B \<le> pnl \<and> pnl \<le> upper_pnl ?B"
    using entry_gate[of ?B] by blast
  then have gB: "\<exists>pnl. get_daily_pnl ?B = Inr pnl \<and> - 100 \<le> pnl \<and> pnl \<le> 100"
    using lim(3,4) by simp
  show ?thesis
    using pA eA pB flatB eB oB gB eC posD eD penE eE by blast
qed


text \<open>
  Claim C5. Condition-1 entry with at least 2 Heikin-Ashi rows: if the second-to-last
  close is above the EMA of the same row, one BUY market order tagged \<^verbatim>\<open>entry\<close> of the
  configured size is placed; if below, one such SELL order; if equal, nothing. With fewer
  than 2 rows, or no frame, nothing is placed and nothing fails.
\<close>

theorem condition1_entry_signal:
  "(s1_ha_bars c = Some df \<and> 2 \<le> length df \<and>
      row_close (df ! (length df - 2)) > row_ema (df ! (length df - 2)) \<longrightarrow>
        placed (ib (condition1_entry c)) = placed (ib c) @
          [\<lparr>action = ''BUY'', totalQuantity = real_of_int (cfg_size (config c)),
            kind = MarketOrder, orderRef = ''entry'', ocaGroup = Some [],
            outsideRth = True, orderId = 0\<rparr>]) \<and>
   (s1_ha_bars c = Some df \<and> 2 \<le> length df \<and>
      row_close (df ! (length df - 2)) < row_ema (df ! (length df - 2)) \<longrightarrow>
        placed (ib (condition1_entry c)) = placed (ib c) @
          [\<lparr>action = ''SELL'', totalQuantity = real_of_int (cfg_size (config c)),
            kind = MarketOrder, orderRef = ''entry'', ocaGroup = Some [],
            outsideRth = True, orderId = 0\<rparr>]) \<and>
   (s1_ha_bars c = Some df \<and> 2 \<le> length df \<and>
      row_close (df ! (length df - 2)) = row_ema (df ! (length df - 2)) \<longrightarrow>
        condition1_entry c = c) \<and>
   (s1_ha_bars c = Some df \<and> length df < 2 \<longrightarrow> condition1_entry c = c) \<and>
   (s1_ha_bars c = None \<longrightarrow> condition1_entry c = c)"
proof -
  have idx: "2 \<le> length df \<Longrightarrow> map row_ema df ! (length df - 2) = row_ema (df ! (length df - 2))"
    by (rule nth_map) arith
  show ?thesis
    using idx by (auto simp: condition1_entry_def placeOrder_def entry_order_def Let_def)
qed


text \<open>The theorem at close 105, 95 and 100 against EMA 100, at a single row and at no frame.\<close>

theorem condition1_entry_signal_witness:
  "placed (ib (condition1_entry (flat_connector [] (Some (example_frame 105 100))))) =
     [\<lparr>action = ''BUY'', totalQuantity = 2, kind = MarketOrder, orderRef = ''entry'',
       ocaGroup = Some [], outsideRth = True, orderId = 0\<rparr>] \<and>
   placed (ib (condition1_entry (flat_connector [] (Some (example_frame 95 100))))) =
     [\<lparr>action = ''SELL'', totalQuantity = 2, kind = MarketOrder, orderRef = ''entry'',
       ocaGroup = Some [], outsideRth = True, orderId = 0\<rparr>] \<and>
   condition1_entry (flat_connector [] (Some (example_frame 100 100))) =
     flat_connector [] (Some (example_frame 100 100)) \<and>
   condition1_entry (flat_connector [] (Some [hd (example_frame 105 100)])) =
     flat_connector [] (Some [hd (example_frame 105 100)]) \<and>
   condition1_entry (flat_connector [] None) = flat_connector [] None"
proof -
  have buy: "placed (ib (condition1_entry (flat_connector [] (Some (example_frame 105 100))))) =
     [\<lparr>action = ''BUY'', totalQuantity = 2, kind = MarketOrder, orderRef = ''entry'',
       ocaGroup = Some [], outsideRth = True, orderId = 0\<rparr>]"
    using condition1_entry_signal[of "flat_connector [] (Some (example_frame 105 100))"
        "example_frame 105 100"]
    by (simp add: flat_connector_def example_frame_def example_config_def)
  have sell: "placed (ib (condition1_entry (flat_connector [] (Some (example_frame 95 100))))) =
     [\<lparr>action = ''SELL'', totalQuantity = 2, kind = MarketOrder, orderRef = ''entry'',
       ocaGroup = Some [], outsideRth = True, orderId = 0\<rparr>]"
    using condition1_entry_signal[of "flat_connector [] (Some (example_frame 95 100))"
        "example_frame 95 100"]
    by (simp add: flat_connector_def example_frame_def example_config_def)
  have eq: "condition1_entry (flat_connector [] (Some (example_frame 100 100))) =
     flat_connector [] (Some (example_frame 100 100))"
    using condition1_entry_signal[of "flat_connector [] (Some (example_frame 100 100))"
        "example_frame 100 100"]
    by (simp add: flat_connector_def example_frame_def example_config_def)
  have short: "condition1_entry (flat_connector [] (Some [hd (example_frame 105 100)])) =
     flat_connector [] (Some [hd (example_frame 105 100)])"
    using condition1_entry_signal[of "flat_connector [] (Some [hd (example_frame 105 100)])"
        "[hd (example_frame 105 100)]"]
    by (simp add: flat_connector_def)
  have none: "condition1_entry (flat_connector [] None) = flat_connector [] None"
    using condition1_entry_signal[of "flat_connector [] None" "[]"]
    by (simp add: flat_connector_def)
  show ?thesis using buy sell eq short none by blast
qed

lemma realized_pnl_missing:
  "\<not> list_ex (\<lambda>s. tag s = ''RealizedPnL'' \<and> currency s = ''USD'') summary \<Longrightarrow>
     realized_pnl summary = Inr 0"
  by (induction summary) auto


text \<open>
  Claim C10. If the account summary has no line with tag \<^verbatim>\<open>RealizedPnL\<close> and currency
  \<^verbatim>\<open>USD\<close>, the daily PnL query returns 0, so the PnL gate passes exactly when
  \<open>lower_pnl \<le> 0 \<le> upper_pnl\<close>, and entry evaluation goes on to the rule variant
  exactly when moreover no position and no trailing stop are in the way.
\<close>

theorem missing_pnl_defaults_to_zero:
  assumes "\<not> list_ex (\<lambda>s. tag s = ''RealizedPnL'' \<and> currency s = ''USD'') (accountSummary (ib c))"
  shows "get_daily_pnl c = Inr 0 \<and>
         is_pnl_within_limits c = Inr (lower_pnl c \<le> 0 \<and> 0 \<le> upper_pnl c) \<and>
         entry c =
           (if has_open_position c \<or> has_pending_trailing_stop_order c
               \<or> \<not> (lower_pnl c \<le> 0 \<and> 0 \<le> upper_pnl c)
            then Inr c
            else if cfg_condition (config c) = Some ''1'' then Inr (condition1_entry c)
            else if cfg_condition (config c) = Some ''2'' then Inr (condition2_entry c)
            else Inr c)"
proof -
  have p: "get_daily_pnl c = Inr 0"
    using assms by (simp add: get_daily_pnl_def realized_pnl_missing)
  then have g: "is_pnl_within_limits c = Inr (lower_pnl c \<le> 0 \<and> 0 \<le> upper_pnl c)"
    by (simp add: is_pnl_within_limits_def)
  show ?thesis using p g by (simp add: entry_def)
qed


text \<open>The theorem at a summary whose only realized PnL line is in EUR.\<close>

theorem missing_pnl_defaults_to_zero_witness:
  "\<not> list_ex (\<lambda>s. tag s = ''RealizedPnL'' \<and> currency s = ''USD'')
       (accountSummary (ib (flat_connector summary_without_pnl (Some (example_frame 95 100))))) \<and>
   get_daily_pnl (flat_connector summary_without_pnl (Some (example_frame 95 100))) = Inr 0 \<and>
   is_pnl_within_limits (flat_connector summary_without_pnl (Some (example_frame 95 100)))
     = Inr True"
proof -
  have h: "\<not> list_ex (\<lambda>s. tag s = ''RealizedPnL'' \<and> currency s = ''USD'')
       (accountSummary (ib (flat_connector summary_without_pnl (Some (example_frame 95 100)))))"
    by (simp add: flat_connector_def summary_without_pnl_def)
  show ?thesis
    using h missing_pnl_defaults_to_zero[OF h] by (simp add: flat_connector_def)
qed


section \<open>Trailing-stop management (C9)\<close>

text \<open>
  Claim C9. While an open order tagged \<^verbatim>\<open>trailing_stop_loss\<close> exists, trailing-stop
  management places no order and leaves the state as it is, however far the price has
  moved in favour of the position.
\<close>

theorem no_second_trailing_stop:
  assumes "has_pending_trailing_stop_order c"
  shows "manage_positions c = c \<and> placed (ib (manage_positions c)) = placed (ib c)"
  using assms by (simp add: manage_positions_def)


text \<open>
  The theorem at a long position whose excursion of 20 exceeds the trigger distance 10:
  with the pending trailing stop nothing is placed; without it the trailing stop is.
\<close>

theorem no_second_trailing_stop_witness:
  "has_pending_trailing_stop_order (long_connector [pending_trailing_trade]) \<and>
   manage_positions (long_connector [pending_trailing_trade])
     = long_connector [pending_trailing_trade] \<and>
   placed (ib (manage_positions (long_connector [pending_trailing_trade]))) = [] \<and>
   placed (ib (manage_positions (long_connector []))) =
     [\<lparr>action = ''SELL'', totalQuantity = 2, kind = TrailOrder 5 15005,
       orderRef = ''trailing_stop_loss'', ocaGroup = Some ''oca_17'', outsideRth = True,
       orderId = 0\<rparr>]"
proof -
  have h: "has_pending_trailing_stop_order (long_connector [pending_trailing_trade])"
    by (simp add: has_pending_trailing_stop_order_def long_connector_def
        pending_trailing_trade_def)
  have e: "placed (ib (long_connector [pending_trailing_trade])) = []"
    by (simp add: long_connector_def)
  have without: "placed (ib (manage_positions (long_connector []))) =
     [\<lparr>action = ''SELL'', totalQuantity = 2, kind = TrailOrder 5 15005,
       orderRef = ''trailing_stop_loss'', ocaGroup = Some ''oca_17'', outsideRth = True,
       orderId = 0\<rparr>]"
    by (simp add: manage_positions_def long_connector_def get_position_size_def
        has_pending_trailing_stop_order_def recover_entry_price_def placeOrder_def
        example_config_def)
  show ?thesis
    using h e without no_second_trailing_stop[OF h] by simp
qed

end
